theory Spec2Isabelle
  imports Main "HOL-Library.Word"
begin

section \<open>Python values, errors and the built-ins the utility calls\<close>

text \<open>
  The theory embeds \<^verbatim>\<open>ovs_p4ctl.py\<close>. A Python \<^verbatim>\<open>str\<close> is a \<^typ>\<open>string\<close> in which
  every character stands for the code point of the same number (the code points below
  256), so \<^const>\<open>length\<close> counts characters as \<^verbatim>\<open>len\<close> does. A \<^verbatim>\<open>bytes\<close> object is a
  list of 8-bit words. Every \<^verbatim>\<open>raise\<close> and every failing built-in is a value \<open>Inl e\<close> of
  a sum type.
\<close>

type_synonym byte = "8 word"
type_synonym bytes = "byte list"

datatype py_error =
    Exception
  | AssertionError
  | AttributeError
  | NameError
  | ValueError
  | TypeError
  | IndexError
  | OSError
  | struct_error
  | DecodeError
  | StopIteration
  | SystemExit int
  | P4RuntimeErrorFormatException string
  | P4RuntimeWriteException
  | P4RuntimeException

definition bind_err :: "'e + 'a \<Rightarrow> ('a \<Rightarrow> 'e + 'b) \<Rightarrow> 'e + 'b" where
  "bind_err m f = (case m of Inl e \<Rightarrow> Inl e | Inr x \<Rightarrow> f x)"

fun mapM_err :: "('a \<Rightarrow> 'e + 'b) \<Rightarrow> 'a list \<Rightarrow> 'e + 'b list" where
  "mapM_err f [] = Inr []"
| "mapM_err f (x # xs) =
     (case f x of Inl e \<Rightarrow> Inl e
      | Inr y \<Rightarrow> (case mapM_err f xs of Inl e \<Rightarrow> Inl e | Inr ys \<Rightarrow> Inr (y # ys)))"

datatype pyval =
    PStr string
  | PInt int
  | PBytes bytes
  | PList "pyval list"
  | PTuple "pyval list"

subsection \<open>Digits and \<^verbatim>\<open>int(text, base)\<close>\<close>

definition digit_value :: "char \<Rightarrow> nat option" where
  "digit_value c =
     (let k = (of_char c :: nat) in
      if 48 \<le> k \<and> k \<le> 57 then Some (k - 48)
      else if 97 \<le> k \<and> k \<le> 122 then Some (k - 87)
      else if 65 \<le> k \<and> k \<le> 90 then Some (k - 55)
      else None)"

definition digit_in :: "nat \<Rightarrow> char \<Rightarrow> bool" where
  "digit_in base c = (case digit_value c of Some d \<Rightarrow> d < base | None \<Rightarrow> False)"

text \<open>The characters that \<^verbatim>\<open>int\<close> skips around a number: the ASCII white space, and
  the two white-space code points between 128 and 255.\<close>

definition is_space :: "char \<Rightarrow> bool" where
  "is_space c = ((of_char c :: nat) \<in> {9, 10, 11, 12, 13, 32, 133, 160})"

text \<open>\<^verbatim>\<open>str.isdigit\<close> of one character: the decimal digits and the superscript digits
  (code points 178, 179 and 185), which \<^verbatim>\<open>int\<close> does not accept.\<close>

definition isdigit_char :: "char \<Rightarrow> bool" where
  "isdigit_char c = (digit_in 10 c \<or> (of_char c :: nat) \<in> {178, 179, 185})"

definition isdigit :: "string \<Rightarrow> bool" where
  "isdigit s = (s \<noteq> [] \<and> list_all isdigit_char s)"

fun no_double_underscore :: "string \<Rightarrow> bool" where
  "no_double_underscore (a # b # r) =
     (\<not> (a = CHR ''_'' \<and> b = CHR ''_'') \<and> no_double_underscore (b # r))"
| "no_double_underscore _ = True"

definition digits_value :: "nat \<Rightarrow> string \<Rightarrow> nat" where
  "digits_value base ds =
     foldl (\<lambda>acc c. case digit_value c of Some d \<Rightarrow> acc * base + d | None \<Rightarrow> acc) 0 ds"

text \<open>
  \<^verbatim>\<open>int(s, base)\<close> for base 0 or 2 to 36: white space around, an optional sign, the
  base prefix when it fits the base, digits with single underscores between them. Base 0
  takes the base from the prefix and refuses a decimal number with a leading zero unless
  its value is zero.
\<close>

definition py_int :: "nat \<Rightarrow> string \<Rightarrow> py_error + int" where
  "py_int base0 s =
     (let s1 = dropWhile is_space s;
          neg = (s1 \<noteq> [] \<and> hd s1 = CHR ''-'');
          s2 = (if s1 \<noteq> [] \<and> (hd s1 = CHR ''-'' \<or> hd s1 = CHR ''+'') then tl s1 else s1);
          pfx = (case s2 of
                   z # p # _ \<Rightarrow>
                     if z \<noteq> CHR ''0'' then 0
                     else if p = CHR ''x'' \<or> p = CHR ''X'' then 16
                     else if p = CHR ''o'' \<or> p = CHR ''O'' then 8
                     else if p = CHR ''b'' \<or> p = CHR ''B'' then 2
                     else (0::nat)
                 | _ \<Rightarrow> 0);
          base = (if base0 = 0 then (if pfx = 0 then 10 else pfx) else base0);
          s3 = (if pfx \<noteq> 0 \<and> pfx = base
                then (let r = drop 2 s2 in if r \<noteq> [] \<and> hd r = CHR ''_'' then tl r else r)
                else s2);
          body = takeWhile (\<lambda>c. c = CHR ''_'' \<or> digit_in base c) s3;
          rest = dropWhile (\<lambda>c. c = CHR ''_'' \<or> digit_in base c) s3;
          v = digits_value base body
      in if body = [] \<or> hd body = CHR ''_'' \<or> last body = CHR ''_''
            \<or> \<not> no_double_underscore body \<or> \<not> list_all is_space rest
            \<or> (base0 = 0 \<and> pfx = 0 \<and> hd s2 = CHR ''0'' \<and> v \<noteq> 0)
         then Inl ValueError
         else Inr (if neg then - int v else int v))"

subsection \<open>The hex codec and \<^verbatim>\<open>"%x" % n\<close>\<close>

definition hex_digit :: "nat \<Rightarrow> char" where
  "hex_digit d = (if d < 10 then char_of (48 + d) else char_of (87 + d))"

fun hex_of_nat :: "nat \<Rightarrow> string" where
  "hex_of_nat n =
     (if n < 16 then [hex_digit n] else hex_of_nat (n div 16) @ [hex_digit (n mod 16)])"

declare hex_of_nat.simps [simp del]

definition fmt_x :: "int \<Rightarrow> string" where
  "fmt_x i = (if i < 0 then CHR ''-'' # hex_of_nat (nat (- i)) else hex_of_nat (nat i))"

text \<open>\<^verbatim>\<open>codecs.decode(s, "hex_codec")\<close> of a \<^verbatim>\<open>str\<close>: \<^verbatim>\<open>binascii.a2b_hex\<close>. It refuses a
  string of odd length and a character that is not a hex digit with \<^verbatim>\<open>binascii.Error\<close>,
  a subclass of \<^verbatim>\<open>ValueError\<close>, which stands for it here.\<close>

fun a2b_hex :: "string \<Rightarrow> py_error + bytes" where
  "a2b_hex [] = Inr []"
| "a2b_hex [c] = Inl ValueError"
| "a2b_hex (h # l # cs) =
     (if digit_in 16 h \<and> digit_in 16 l
      then (case a2b_hex cs of
              Inl e \<Rightarrow> Inl e
            | Inr bs \<Rightarrow> Inr (word_of_nat (digits_value 16 [h, l]) # bs))
      else Inl ValueError)"

text \<open>\<^verbatim>\<open>codecs.encode(b, "hex_codec")\<close>: two lower-case hex digits for every byte.\<close>

definition b2a_hex :: "bytes \<Rightarrow> string" where
  "b2a_hex bs = concat (map (\<lambda>b. [hex_digit (unat b div 16), hex_digit (unat b mod 16)]) bs)"

subsection \<open>Splitting and indexing\<close>

text \<open>\<^verbatim>\<open>s.split(sep)\<close> for a separator that is not empty, scanning from the left.\<close>

fun split_from :: "string \<Rightarrow> string \<Rightarrow> string \<Rightarrow> string list" where
  "split_from sep cur [] = [cur]"
| "split_from sep cur (c # cs) =
     (if sep \<noteq> [] \<and> take (length sep) (c # cs) = sep
      then cur # split_from sep [] (drop (length sep - 1) cs)
      else split_from sep (cur @ [c]) cs)"

definition split :: "string \<Rightarrow> string \<Rightarrow> string list" where
  "split sep s = split_from sep [] s"

text \<open>\<^verbatim>\<open>sub in s\<close>, which is also \<^verbatim>\<open>s.find(sub) != -1\<close>.\<close>

definition contains :: "string \<Rightarrow> string \<Rightarrow> bool" where
  "contains sub s = (1 < length (split sub s) \<or> sub = [])"

text \<open>\<^verbatim>\<open>xs[i]\<close> for an index that is not negative.\<close>

definition index :: "'a list \<Rightarrow> nat \<Rightarrow> py_error + 'a" where
  "index xs i = (if i < length xs then Inr (xs ! i) else Inl IndexError)"

section \<open>Wire value codec\<close>

text \<open>\<^verbatim>\<open>mac_pattern\<close>, \<^verbatim>\<open>ip_pattern\<close>: both are anchored with \<^verbatim>\<open>$\<close>, which also matches
  just before a line feed that ends the string.\<close>

definition before_final_newline :: "string \<Rightarrow> string" where
  "before_final_newline s = (if s \<noteq> [] \<and> last s = CHR 0x0A then butlast s else s)"

fun mac_groups :: "nat \<Rightarrow> string \<Rightarrow> bool" where
  "mac_groups 0 s = (case s of [a, b] \<Rightarrow> digit_in 16 a \<and> digit_in 16 b | _ \<Rightarrow> False)"
| "mac_groups (Suc n) s =
     (case s of
        a # b # c # r \<Rightarrow> digit_in 16 a \<and> digit_in 16 b \<and> c = CHR '':'' \<and> mac_groups n r
      | _ \<Rightarrow> False)"

definition matchesMac :: "string \<Rightarrow> bool" where
  "matchesMac mac_addr_string =
     (mac_groups 5 mac_addr_string \<or> mac_groups 5 (before_final_newline mac_addr_string))"

definition encodeMac :: "string \<Rightarrow> py_error + bytes" where
  "encodeMac mac_addr_string = a2b_hex (filter (\<lambda>c. c \<noteq> CHR '':'') mac_addr_string)"

definition ip_groups :: "string \<Rightarrow> bool" where
  "ip_groups s =
     (let parts = split ''.'' s
      in length parts = 4 \<and>
         list_all (\<lambda>p. 1 \<le> length p \<and> length p \<le> 3 \<and> list_all (digit_in 10) p) parts)"

definition matchesIPv4 :: "string \<Rightarrow> bool" where
  "matchesIPv4 ip_addr_string =
     (ip_groups ip_addr_string \<or> ip_groups (before_final_newline ip_addr_string))"

text \<open>\<^verbatim>\<open>socket.inet_aton\<close> is the platform's; the functions that call it take it as the
  parameter \<open>inet_aton\<close>.\<close>

definition encodeIPv4 :: "(string \<Rightarrow> py_error + bytes) \<Rightarrow> string \<Rightarrow> py_error + bytes" where
  "encodeIPv4 inet_aton ip_addr_string = inet_aton ip_addr_string"

text \<open>\<^verbatim>\<open>struct.unpack("!L", packedIP)[0]\<close>: four bytes, big-endian.\<close>

definition encodeIPv4_base10 :: "(string \<Rightarrow> py_error + bytes) \<Rightarrow> string \<Rightarrow> py_error + int" where
  "encodeIPv4_base10 inet_aton ip_addr_string =
     bind_err (inet_aton ip_addr_string) (\<lambda>packedIP.
       if length packedIP = 4
       then Inr (int (foldl (\<lambda>acc b. acc * 256 + unat b) 0 packedIP))
       else Inl struct_error)"

text \<open>\<^verbatim>\<open>int(math.ceil(bitwidth / 8.0))\<close>. A bit width is a count of bits, a natural
  number.\<close>

definition bitwidthToBytes :: "nat \<Rightarrow> nat" where
  "bitwidthToBytes bitwidth = (bitwidth + 7) div 8"

text \<open>\<^verbatim>\<open>"0" * k\<close> is empty for a negative \<open>k\<close>, as the truncated difference makes it.\<close>

definition encodeNum :: "int \<Rightarrow> nat \<Rightarrow> py_error + bytes" where
  "encodeNum number bitwidth =
     (let byte_len = bitwidthToBytes bitwidth;
          num_str = fmt_x number
      in if number \<ge> 2 ^ bitwidth then Inl Exception
         else a2b_hex (replicate (byte_len * 2 - length num_str) (CHR ''0'') @ num_str))"

definition decodeNum :: "bytes \<Rightarrow> py_error + int" where
  "decodeNum encoded_number = py_int 16 (b2a_hex encoded_number)"

text \<open>\<^verbatim>\<open>len\<close> of what \<^verbatim>\<open>encode\<close> has produced: bytes, or the string itself.\<close>

fun py_len :: "pyval \<Rightarrow> py_error + nat" where
  "py_len (PStr s) = Inr (length s)"
| "py_len (PBytes b) = Inr (length b)"
| "py_len (PList xs) = Inr (length xs)"
| "py_len (PTuple xs) = Inr (length xs)"
| "py_len (PInt i) = Inl TypeError"

definition encode :: "(string \<Rightarrow> py_error + bytes) \<Rightarrow> pyval \<Rightarrow> nat \<Rightarrow> py_error + pyval" where
  "encode inet_aton x0 bitwidth =
     (let byte_len = bitwidthToBytes bitwidth;
          x = (case x0 of PList [y] \<Rightarrow> y | PTuple [y] \<Rightarrow> y | _ \<Rightarrow> x0);
          encoded_bytes =
            (case x of
               PStr s \<Rightarrow>
                 if matchesMac s then map_sum id PBytes (encodeMac s)
                 else if matchesIPv4 s then map_sum id PBytes (encodeIPv4 inet_aton s)
                 else if isdigit s
                   then bind_err (py_int 10 s) (\<lambda>n. map_sum id PBytes (encodeNum n bitwidth))
                 else Inr (PStr s)
             | PInt n \<Rightarrow> map_sum id PBytes (encodeNum n bitwidth)
             | _ \<Rightarrow> Inl Exception)
      in bind_err encoded_bytes (\<lambda>v.
           bind_err (py_len v) (\<lambda>n.
             if n = byte_len then Inr v else Inl AssertionError)))"


section \<open>Schema index\<close>

text \<open>
  The pipeline schema (P4Info) as \<^verbatim>\<open>P4InfoHelper\<close> reads it. Ids are \<^verbatim>\<open>uint32\<close> fields;
  Python reads them as unbounded integers. A bit width is kept as a natural number.
\<close>

type_synonym uint32 = "32 word"
type_synonym int32 = "32 word"

record Preamble =
  preamble_id :: uint32
  preamble_name :: string
  preamble_alias :: string

datatype MatchType = UNSPECIFIED | EXACT | LPM | TERNARY | RANGE | OPTIONAL

record MatchField =
  mf_id :: uint32
  mf_name :: string
  mf_bitwidth :: nat
  mf_match_type :: MatchType

record Table =
  table_preamble :: Preamble
  table_match_fields :: "MatchField list"

record Param =
  prm_id :: uint32
  prm_name :: string
  prm_bitwidth :: nat

record Action =
  action_preamble :: Preamble
  action_param_list :: "Param list"

record ActionProfile =
  action_profile_preamble :: Preamble

record P4Info =
  tables :: "Table list"
  actions :: "Action list"
  action_profiles :: "ActionProfile list"

text \<open>The entity types that the utility looks up: the attribute names \<^verbatim>\<open>"tables"\<close>,
  \<^verbatim>\<open>"actions"\<close> and \<^verbatim>\<open>"action_profiles"\<close> of the schema.\<close>

datatype entity_type = Tables | Actions | ActionProfiles

text \<open>\<^verbatim>\<open>getattr(self.p4info, entity_type)\<close>; of each object only the preamble is read.\<close>

fun preambles :: "P4Info \<Rightarrow> entity_type \<Rightarrow> Preamble list" where
  "preambles p4info Tables = map table_preamble (tables p4info)"
| "preambles p4info Actions = map action_preamble (actions p4info)"
| "preambles p4info ActionProfiles = map action_profile_preamble (action_profiles p4info)"

text \<open>
  \<^verbatim>\<open>P4InfoHelper.get\<close>. The test \<^verbatim>\<open>if name:\<close> is false for \<^verbatim>\<open>None\<close> and for the empty
  string; the scan then compares ids, and a missing id equals none.
\<close>

definition get :: "P4Info \<Rightarrow> entity_type \<Rightarrow> string option \<Rightarrow> int option \<Rightarrow> py_error + Preamble" where
  "get p4info entity_type name ident =
     (if name \<noteq> None \<and> ident \<noteq> None then Inl AssertionError
      else
        (case find (\<lambda>pre.
                 case name of
                   Some n \<Rightarrow>
                     if n \<noteq> [] then preamble_name pre = n \<or> preamble_alias pre = n
                     else ident = Some (uint (preamble_id pre))
                 | None \<Rightarrow> ident = Some (uint (preamble_id pre)))
               (preambles p4info entity_type) of
           Some pre \<Rightarrow> Inr pre
         | None \<Rightarrow> Inl AttributeError))"

definition get_id :: "P4Info \<Rightarrow> entity_type \<Rightarrow> string \<Rightarrow> py_error + int" where
  "get_id p4info entity_type name =
     map_sum id (\<lambda>pre. uint (preamble_id pre)) (get p4info entity_type (Some name) None)"

definition get_name :: "P4Info \<Rightarrow> entity_type \<Rightarrow> int \<Rightarrow> py_error + string" where
  "get_name p4info entity_type ident =
     map_sum id preamble_name (get p4info entity_type None (Some ident))"

definition get_alias :: "P4Info \<Rightarrow> entity_type \<Rightarrow> int \<Rightarrow> py_error + string" where
  "get_alias p4info entity_type ident =
     map_sum id preamble_alias (get p4info entity_type None (Some ident))"

text \<open>\<^verbatim>\<open>get_match_field\<close>: every table whose name is \<open>table_name\<close> is scanned, in order.\<close>

definition get_match_field ::
  "P4Info \<Rightarrow> string \<Rightarrow> string option \<Rightarrow> int option \<Rightarrow> py_error + MatchField" where
  "get_match_field p4info table_name name ident =
     (case find (\<lambda>mf.
              case name of
                Some n \<Rightarrow> mf_name mf = n
              | None \<Rightarrow> (case ident of Some i \<Rightarrow> uint (mf_id mf) = i | None \<Rightarrow> False))
            (concat (map table_match_fields
               (filter (\<lambda>t. preamble_name (table_preamble t) = table_name) (tables p4info)))) of
        Some mf \<Rightarrow> Inr mf
      | None \<Rightarrow> Inl AttributeError)"

text \<open>\<^verbatim>\<open>get_action_params\<close> returns \<^verbatim>\<open>None\<close> when no action has the name.\<close>

definition get_action_params :: "P4Info \<Rightarrow> string \<Rightarrow> Param list option" where
  "get_action_params p4info action_name =
     map_option action_param_list
       (find (\<lambda>a. preamble_name (action_preamble a) = action_name) (actions p4info))"

text \<open>\<^verbatim>\<open>get_action_param\<close>: the message of its \<^verbatim>\<open>AttributeError\<close> reads the loop variable
  \<^verbatim>\<open>a\<close>, which is unbound when the schema has no action at all.\<close>

definition get_action_param ::
  "P4Info \<Rightarrow> string \<Rightarrow> string option \<Rightarrow> int option \<Rightarrow> py_error + Param" where
  "get_action_param p4info action_name name ident =
     (case find (\<lambda>p.
              case name of
                Some n \<Rightarrow> prm_name p = n
              | None \<Rightarrow> (case ident of Some i \<Rightarrow> uint (prm_id p) = i | None \<Rightarrow> False))
            (concat (map action_param_list
               (filter (\<lambda>a. preamble_name (action_preamble a) = action_name) (actions p4info)))) of
        Some p \<Rightarrow> Inr p
      | None \<Rightarrow> if actions p4info = [] then Inl NameError else Inl AttributeError)"

section \<open>Wire entities and their builders\<close>

text \<open>
  The P4Runtime messages that the builders fill. Assigning a Python integer to a
  \<^verbatim>\<open>uint32\<close> or \<^verbatim>\<open>int32\<close> field raises \<^verbatim>\<open>ValueError\<close> when it is out of range, and
  assigning anything but \<^verbatim>\<open>bytes\<close> to a \<^verbatim>\<open>bytes\<close> field raises \<^verbatim>\<open>TypeError\<close>.
\<close>

definition to_uint32 :: "int \<Rightarrow> py_error + uint32" where
  "to_uint32 v = (if 0 \<le> v \<and> v < 2 ^ 32 then Inr (word_of_int v) else Inl ValueError)"

definition to_int32 :: "int \<Rightarrow> py_error + int32" where
  "to_int32 v = (if - (2 ^ 31) \<le> v \<and> v < 2 ^ 31 then Inr (word_of_int v) else Inl ValueError)"

fun to_bytes_field :: "pyval \<Rightarrow> py_error + bytes" where
  "to_bytes_field (PBytes b) = Inr b"
| "to_bytes_field _ = Inl TypeError"

fun to_int32_field :: "pyval \<Rightarrow> py_error + int32" where
  "to_int32_field (PInt v) = to_int32 v"
| "to_int32_field _ = Inl TypeError"

text \<open>\<^verbatim>\<open>value[i]\<close> on what a match value can be.\<close>

fun py_index :: "pyval \<Rightarrow> nat \<Rightarrow> py_error + pyval" where
  "py_index (PStr s) i = map_sum id (\<lambda>c. PStr [c]) (index s i)"
| "py_index (PBytes b) i = map_sum id (\<lambda>w. PInt (uint w)) (index b i)"
| "py_index (PList xs) i = index xs i"
| "py_index (PTuple xs) i = index xs i"
| "py_index (PInt v) i = Inl TypeError"

datatype field_match_type =
    FM_exact bytes
  | FM_lpm bytes int32
  | FM_ternary bytes bytes
  | FM_range bytes bytes

record FieldMatch =
  fm_field_id :: uint32
  fm_field_match_type :: field_match_type

record Action_Param =
  ap_param_id :: uint32
  ap_value :: bytes

record Action_msg =
  act_action_id :: uint32
  act_params :: "Action_Param list"

text \<open>\<^verbatim>\<open>TableAction\<close> is a one-of: a later assignment replaces an earlier one.\<close>

datatype TableAction =
    TA_unset
  | TA_action Action_msg
  | TA_action_profile_member_id uint32
  | TA_action_profile_group_id uint32

record TableEntry =
  te_table_id :: uint32
  te_match :: "FieldMatch list"
  te_action :: TableAction
  te_priority :: int32
  te_is_default_action :: bool

record ActionProfileMember =
  apm_action_profile_id :: uint32
  apm_member_id :: uint32
  apm_action :: "Action_msg option"

record Member =
  mem_member_id :: uint32

record ActionProfileGroup =
  apg_action_profile_id :: uint32
  apg_group_id :: uint32
  apg_members :: "Member list"
  apg_max_size :: int32

text \<open>A value for a \<^verbatim>\<open>bytes\<close> field: \<^verbatim>\<open>field = encode(v, bitwidth)\<close>.\<close>

definition encode_field ::
  "(string \<Rightarrow> py_error + bytes) \<Rightarrow> pyval \<Rightarrow> nat \<Rightarrow> py_error + bytes" where
  "encode_field inet_aton v bitwidth = bind_err (encode inet_aton v bitwidth) to_bytes_field"

text \<open>The two assignments of an LPM, ternary or range match, in the order of the source:
  the first field from \<^verbatim>\<open>value[0]\<close>, then the second from \<^verbatim>\<open>value[1]\<close>.\<close>

definition match_pair ::
  "pyval \<Rightarrow> (pyval \<Rightarrow> py_error + 'a) \<Rightarrow> (pyval \<Rightarrow> py_error + 'b) \<Rightarrow> ('a \<Rightarrow> 'b \<Rightarrow> 'c)
     \<Rightarrow> py_error + 'c" where
  "match_pair val fst_field snd_field mk =
     bind_err (py_index val 0) (\<lambda>v0.
     bind_err (fst_field v0) (\<lambda>a.
     bind_err (py_index val 1) (\<lambda>v1.
     bind_err (snd_field v1) (\<lambda>b. Inr (mk a b)))))"

definition get_match_field_pb ::
  "(string \<Rightarrow> py_error + bytes) \<Rightarrow> P4Info \<Rightarrow> string \<Rightarrow> string \<Rightarrow> pyval \<Rightarrow> py_error + FieldMatch" where
  "get_match_field_pb inet_aton p4info table_name match_field_name val =
     bind_err (get_match_field p4info table_name (Some match_field_name) None) (\<lambda>p4info_match.
       let bitwidth = mf_bitwidth p4info_match;
           enc = (\<lambda>v. encode_field inet_aton v bitwidth)
       in map_sum id (\<lambda>m. \<lparr>fm_field_id = mf_id p4info_match, fm_field_match_type = m\<rparr>)
            (case mf_match_type p4info_match of
               EXACT \<Rightarrow> map_sum id FM_exact (enc val)
             | LPM \<Rightarrow> match_pair val enc to_int32_field FM_lpm
             | TERNARY \<Rightarrow> match_pair val enc enc FM_ternary
             | RANGE \<Rightarrow> match_pair val enc enc FM_range
             | _ \<Rightarrow> Inl Exception))"

definition get_action_param_pb ::
  "(string \<Rightarrow> py_error + bytes) \<Rightarrow> P4Info \<Rightarrow> string \<Rightarrow> string \<Rightarrow> pyval \<Rightarrow> py_error + Action_Param" where
  "get_action_param_pb inet_aton p4info action_name param_name val =
     bind_err (get_action_param p4info action_name (Some param_name) None) (\<lambda>p4info_param.
     bind_err (encode_field inet_aton val (prm_bitwidth p4info_param)) (\<lambda>b.
       Inr \<lparr>ap_param_id = prm_id p4info_param, ap_value = b\<rparr>))"

text \<open>The action part shared by \<^verbatim>\<open>buildTableEntry\<close> and \<^verbatim>\<open>buildActionProfileMember\<close>:
  \<^verbatim>\<open>if action_name:\<close> with the nested \<^verbatim>\<open>if action_params:\<close>. A dictionary is the list
  of its items in insertion order.\<close>

definition build_action ::
  "(string \<Rightarrow> py_error + bytes) \<Rightarrow> P4Info \<Rightarrow> string option \<Rightarrow> (string \<times> pyval) list option
     \<Rightarrow> py_error + Action_msg option" where
  "build_action inet_aton p4info action_name action_params =
     (case action_name of
        None \<Rightarrow> Inr None
      | Some an \<Rightarrow>
          if an = [] then Inr None
          else
            bind_err (get_id p4info Actions an) (\<lambda>aid.
            bind_err (to_uint32 aid) (\<lambda>action_id.
            bind_err (case action_params of
                        None \<Rightarrow> Inr []
                      | Some aps \<Rightarrow>
                          mapM_err (\<lambda>(field_name, v).
                            get_action_param_pb inet_aton p4info an field_name v) aps) (\<lambda>ps.
              Inr (Some \<lparr>act_action_id = action_id, act_params = ps\<rparr>)))))"

definition buildTableEntry ::
  "(string \<Rightarrow> py_error + bytes) \<Rightarrow> P4Info \<Rightarrow> string \<Rightarrow> (string \<times> pyval) list option \<Rightarrow> bool
     \<Rightarrow> string option \<Rightarrow> (string \<times> pyval) list option \<Rightarrow> int option \<Rightarrow> int \<Rightarrow> int
     \<Rightarrow> py_error + TableEntry" where
  "buildTableEntry inet_aton p4info table_name match_fields default_action action_name
       action_params priority group_id member_id =
     bind_err (get_id p4info Tables table_name) (\<lambda>tid.
     bind_err (to_uint32 tid) (\<lambda>table_id.
     bind_err (case priority of None \<Rightarrow> Inr 0 | Some pr \<Rightarrow> to_int32 pr) (\<lambda>prio.
     bind_err (case match_fields of
                 None \<Rightarrow> Inr []
               | Some mfs \<Rightarrow>
                   mapM_err (\<lambda>(match_field_name, v).
                     get_match_field_pb inet_aton p4info table_name match_field_name v) mfs) (\<lambda>ms.
     bind_err (build_action inet_aton p4info action_name action_params) (\<lambda>act.
     bind_err (if member_id \<noteq> 0
               then map_sum id TA_action_profile_member_id (to_uint32 member_id)
               else Inr (case act of None \<Rightarrow> TA_unset | Some a \<Rightarrow> TA_action a)) (\<lambda>act1.
     bind_err (if group_id \<noteq> 0
               then map_sum id TA_action_profile_group_id (to_uint32 group_id)
               else Inr act1) (\<lambda>act2.
       Inr \<lparr>te_table_id = table_id, te_match = ms, te_action = act2, te_priority = prio,
            te_is_default_action = default_action\<rparr>)))))))"

definition buildActionProfileMember ::
  "(string \<Rightarrow> py_error + bytes) \<Rightarrow> P4Info \<Rightarrow> string \<Rightarrow> int \<Rightarrow> string option
     \<Rightarrow> (string \<times> pyval) list option \<Rightarrow> py_error + ActionProfileMember" where
  "buildActionProfileMember inet_aton p4info table_name mem_id action_name action_params =
     bind_err (get_id p4info ActionProfiles table_name) (\<lambda>pid.
     bind_err (to_uint32 pid) (\<lambda>profile_id.
     bind_err (to_uint32 mem_id) (\<lambda>m.
     bind_err (build_action inet_aton p4info action_name action_params) (\<lambda>act.
       Inr \<lparr>apm_action_profile_id = profile_id, apm_member_id = m, apm_action = act\<rparr>))))"

text \<open>The member loop of \<^verbatim>\<open>buildActionProfileGroup\<close>: a token for which \<^verbatim>\<open>str.isdigit\<close>
  holds becomes a member of id \<^verbatim>\<open>int(i)\<close>; any other token is passed over.\<close>

fun add_members :: "string list \<Rightarrow> py_error + Member list" where
  "add_members [] = Inr []"
| "add_members (i # rest) =
     (if isdigit i
      then bind_err (py_int 10 i) (\<lambda>v.
           bind_err (to_uint32 v) (\<lambda>m.
           bind_err (add_members rest) (\<lambda>ms. Inr (\<lparr>mem_member_id = m\<rparr> # ms))))
      else add_members rest)"

definition buildActionProfileGroup ::
  "P4Info \<Rightarrow> string \<Rightarrow> int \<Rightarrow> int \<Rightarrow> string list \<Rightarrow> py_error + ActionProfileGroup" where
  "buildActionProfileGroup p4info table_name group_id max_size members =
     bind_err (get_id p4info ActionProfiles table_name) (\<lambda>pid.
     bind_err (to_uint32 pid) (\<lambda>profile_id.
     bind_err (to_uint32 group_id) (\<lambda>g.
     bind_err (add_members members) (\<lambda>ms.
     bind_err (to_int32 max_size) (\<lambda>sz.
       Inr \<lparr>apg_action_profile_id = profile_id, apg_group_id = g, apg_members = ms,
            apg_max_size = sz\<rparr>)))))"

section \<open>Error decoder\<close>

text \<open>
  A failed RPC as the decoder reads it: its status code and its trailing metadata. The
  binary values are represented by what the protobuf decoder makes of them: the value of
  a metadata entry either parses as a \<^verbatim>\<open>google.rpc.Status\<close> or does not, and an \<^verbatim>\<open>Any\<close>
  of the details either packs a \<^verbatim>\<open>p4.v1.Error\<close>, or a message of another type (then
  \<^verbatim>\<open>Unpack\<close> returns false), or bytes that are not a \<^verbatim>\<open>p4.v1.Error\<close> (then it raises).
\<close>

datatype StatusCode =
    OK | CANCELLED | UNKNOWN | INVALID_ARGUMENT | DEADLINE_EXCEEDED | NOT_FOUND
  | ALREADY_EXISTS | PERMISSION_DENIED | RESOURCE_EXHAUSTED | FAILED_PRECONDITION | ABORTED
  | OUT_OF_RANGE | UNIMPLEMENTED | INTERNAL | UNAVAILABLE | DATA_LOSS | UNAUTHENTICATED

text \<open>\<^verbatim>\<open>code_pb2.OK\<close>, the canonical code 0.\<close>

definition code_pb2_OK :: int where
  "code_pb2_OK = 0"

record p4_Error =
  canonical_code :: int
  message :: string

datatype Any = Any_Error p4_Error | Any_other | Any_malformed

record Status =
  status_code :: int
  status_message :: string
  details :: "Any list"

datatype metadata_value = Status_bytes Status | Other_bytes

record grpc_error =
  code :: StatusCode
  trailing_metadata :: "(string \<times> metadata_value) list"

record P4RuntimeErrorIterator =
  errors :: "Any list"
  idx :: nat

text \<open>\<^verbatim>\<open>P4RuntimeErrorIterator.__init__\<close>: the first entry with the key is parsed.\<close>

definition P4RuntimeErrorIterator_init :: "grpc_error \<Rightarrow> py_error + P4RuntimeErrorIterator" where
  "P4RuntimeErrorIterator_init grpc_error =
     (if code grpc_error \<noteq> UNKNOWN then Inl AssertionError
      else
        (case find (\<lambda>meta. fst meta = ''grpc-status-details-bin'') (trailing_metadata grpc_error) of
           None \<Rightarrow> Inl (P4RuntimeErrorFormatException ''No binary details field'')
         | Some meta \<Rightarrow>
             (case snd meta of
                Other_bytes \<Rightarrow> Inl DecodeError
              | Status_bytes error \<Rightarrow>
                  if length (details error) = 0
                  then Inl (P4RuntimeErrorFormatException
                              ''Binary details field has empty Any details repeated field'')
                  else Inr \<lparr>errors = details error, idx = 0\<rparr>)))"

text \<open>
  \<^verbatim>\<open>__next__\<close>: the \<^verbatim>\<open>while\<close> loop as a recursion in the option monad, \<open>None\<close> standing
  for a call that never returns. The branch for the canonical code OK is the \<^verbatim>\<open>continue\<close>
  of the source: it goes round the loop with \<open>idx\<close> as it was.
\<close>

partial_function (option) P4RuntimeErrorIterator_next ::
  "P4RuntimeErrorIterator \<Rightarrow> (py_error + (nat \<times> p4_Error) \<times> P4RuntimeErrorIterator) option" where
  "P4RuntimeErrorIterator_next self =
     (if idx self < length (errors self)
      then (case errors self ! idx self of
              Any_other \<Rightarrow>
                Some (Inl (P4RuntimeErrorFormatException ''Cannot convert Any message to p4.Error''))
            | Any_malformed \<Rightarrow> Some (Inl DecodeError)
            | Any_Error p4_error \<Rightarrow>
                if canonical_code p4_error = code_pb2_OK
                then P4RuntimeErrorIterator_next self
                else Some (Inr ((idx self, p4_error), self\<lparr>idx := idx self + 1\<rparr>)))
      else Some (Inl StopIteration))"

text \<open>The \<^verbatim>\<open>for\<close> loop of \<^verbatim>\<open>P4RuntimeWriteException.__init__\<close>: it appends what the
  iterator yields until \<^verbatim>\<open>StopIteration\<close>; any other exception goes to the caller.\<close>

partial_function (option) collect_errors ::
  "P4RuntimeErrorIterator \<Rightarrow> (nat \<times> p4_Error) list \<Rightarrow> (py_error + (nat \<times> p4_Error) list) option" where
  "collect_errors error_iterator acc =
     (case P4RuntimeErrorIterator_next error_iterator of
        None \<Rightarrow> None
      | Some (Inl e) \<Rightarrow> if e = StopIteration then Some (Inr acc) else Some (Inl e)
      | Some (Inr (error_tuple, it')) \<Rightarrow> collect_errors it' (acc @ [error_tuple]))"

definition P4RuntimeWriteException_init ::
  "grpc_error \<Rightarrow> (py_error + (nat \<times> p4_Error) list) option" where
  "P4RuntimeWriteException_init grpc_error =
     (if code grpc_error \<noteq> UNKNOWN then Some (Inl AssertionError)
      else
        (case P4RuntimeErrorIterator_init grpc_error of
           Inl e \<Rightarrow> Some (Inl e)
         | Inr error_iterator \<Rightarrow> collect_errors error_iterator []))"

text \<open>A failed batch of two updates: the first succeeded, the second did not.\<close>

definition example_details :: "Any list" where
  "example_details =
     [Any_Error \<lparr>canonical_code = 0, message = []\<rparr>,
      Any_Error \<lparr>canonical_code = 5, message = ''entry not found''\<rparr>]"

definition example_write_error :: grpc_error where
  "example_write_error =
     \<lparr>code = UNKNOWN,
      trailing_metadata =
        [(''grpc-status-details-bin'',
          Status_bytes \<lparr>status_code = 2, status_message = [], details = example_details\<rparr>)]\<rparr>"

definition example_bare_error :: grpc_error where
  "example_bare_error = \<lparr>code = UNKNOWN, trailing_metadata = [(''date'', Other_bytes)]\<rparr>"

section \<open>Commands on action profile groups and members\<close>

text \<open>
  The client as the command bodies use it, together with the device behind it: what the
  device answers to \<^verbatim>\<open>GetForwardingPipelineConfig\<close> and to a \<^verbatim>\<open>Write\<close> (an exception or
  nothing), the \<^verbatim>\<open>Write\<close> requests sent so far, and the lines printed. The decorator
  \<^verbatim>\<open>with_client\<close> opens the session before a body runs and tears it down afterwards.
\<close>

datatype Update_Type = UNSPECIFIED_UPDATE | INSERT | MODIFY | DELETE

datatype Entity =
    table_entry TableEntry
  | action_profile_member ActionProfileMember
  | action_profile_group ActionProfileGroup

record Update =
  update_type :: Update_Type
  update_entity :: Entity

record WriteRequest =
  wr_device_id :: int
  wr_election_id :: "int \<times> int"
  wr_updates :: "Update list"

record P4RuntimeClient =
  device_id :: int
  election_id :: "int \<times> int"
  device_p4info :: "py_error + P4Info"
  device_write :: "WriteRequest \<Rightarrow> py_error option"
  written :: "WriteRequest list"
  stdout :: "string list"

text \<open>\<^verbatim>\<open>get_p4info\<close> returns a protobuf message, which is true in a condition whatever it
  holds: the branch \<^verbatim>\<open>if not p4info\<close> of the commands is never taken.\<close>

definition get_p4info :: "P4RuntimeClient \<Rightarrow> py_error + P4Info" where
  "get_p4info client = device_p4info client"

definition write_update :: "P4RuntimeClient \<Rightarrow> Update \<Rightarrow> (py_error + unit) \<times> P4RuntimeClient" where
  "write_update client update =
     (let req = \<lparr>wr_device_id = device_id client, wr_election_id = election_id client,
                 wr_updates = [update]\<rparr>
      in (case device_write client req of None \<Rightarrow> Inr () | Some e \<Rightarrow> Inl e,
          client\<lparr>written := written client @ [req]\<rparr>))"

definition print :: "P4RuntimeClient \<Rightarrow> string \<Rightarrow> P4RuntimeClient" where
  "print client line = client\<lparr>stdout := stdout client @ [line]\<rparr>"

text \<open>\<^verbatim>\<open>int.from_bytes(b, "big")\<close>.\<close>

definition int_from_bytes :: "bytes \<Rightarrow> int" where
  "int_from_bytes b = int (foldl (\<lambda>acc w. acc * 256 + unat w) 0 b)"

text \<open>One action value of \<^verbatim>\<open>parse_action\<close>: an IPv4 address, a MAC address, a number
  with \<^verbatim>\<open>0x\<close> in it (read with base 0) or a decimal number.\<close>

definition parse_action_value :: "(string \<Rightarrow> py_error + bytes) \<Rightarrow> string \<Rightarrow> py_error + pyval" where
  "parse_action_value inet_aton a =
     map_sum id PInt
       (if matchesIPv4 a then encodeIPv4_base10 inet_aton a
        else if matchesMac a then map_sum id int_from_bytes (encodeMac a)
        else if contains ''0x'' a then py_int 0 a
        else py_int 10 a)"

definition parse_action ::
  "(string \<Rightarrow> py_error + bytes) \<Rightarrow> string \<Rightarrow> py_error + string \<times> pyval list" where
  "parse_action inet_aton action =
     (let act_fields = split ''('' action
      in bind_err (index act_fields 0) (\<lambda>action_name.
           if length act_fields > 1
           then bind_err (index (split '')'' (act_fields ! 1)) 0) (\<lambda>params.
                bind_err (mapM_err (parse_action_value inet_aton) (split '','' params)) (\<lambda>act_data.
                  Inr (action_name, act_data)))
           else Inr (action_name, [PStr []])))"

definition parse_profile_mem ::
  "(string \<Rightarrow> py_error + bytes) \<Rightarrow> string \<Rightarrow> py_error + string \<times> pyval list \<times> string" where
  "parse_profile_mem inet_aton flow =
     (let extract_mem = split '',member_id='' flow
      in bind_err (index extract_mem 0) (\<lambda>action_param.
         bind_err (index extract_mem 1) (\<lambda>mem_id.
         bind_err (index (split ''action='' action_param) 1) (\<lambda>act.
         bind_err (parse_action inet_aton act) (\<lambda>(action_name, act_data).
           Inr (action_name, act_data, mem_id))))))"

definition parse_profile_group :: "string \<Rightarrow> py_error + string \<times> string \<times> string" where
  "parse_profile_group flow =
     (let extract_group = split '',reference_members='' flow
      in bind_err (index extract_group 0) (\<lambda>eg0.
         let group_id = split ''group_id='' eg0
         in bind_err (index extract_group 1) (\<lambda>eg1.
            let mem = split '',max_size='' eg1
            in bind_err (index mem 0) (\<lambda>ref_members.
               bind_err (index mem 1) (\<lambda>max_size.
               bind_err (index group_id 1) (\<lambda>g.
                 Inr (g, ref_members, max_size)))))))"

text \<open>\<^verbatim>\<open>int(x)\<close> for an action value: an integer, or a string.\<close>

fun int_of_pyval :: "pyval \<Rightarrow> py_error + int" where
  "int_of_pyval (PInt i) = Inr i"
| "int_of_pyval (PStr s) = py_int 10 s"
| "int_of_pyval _ = Inl TypeError"

text \<open>A dictionary display keeps the place of a key that is set again.\<close>

fun dict_set :: "('k \<times> 'v) list \<Rightarrow> 'k \<Rightarrow> 'v \<Rightarrow> ('k \<times> 'v) list" where
  "dict_set [] k v = [(k, v)]"
| "dict_set ((k', v') # d) k v = (if k' = k then (k', v) # d else (k', v') # dict_set d k v)"

text \<open>\<^verbatim>\<open>{a.name: int(action_data[idx]) for idx, a in enumerate(helper.get_action_params(action))}\<close>;
  \<^verbatim>\<open>enumerate(None)\<close> raises when no action has the name.\<close>

fun action_params_items ::
  "pyval list \<Rightarrow> nat \<Rightarrow> Param list \<Rightarrow> (string \<times> pyval) list \<Rightarrow> py_error + (string \<times> pyval) list" where
  "action_params_items action_data i [] d = Inr d"
| "action_params_items action_data i (a # rest) d =
     bind_err (index action_data i) (\<lambda>x.
     bind_err (int_of_pyval x) (\<lambda>v.
       action_params_items action_data (i + 1) rest (dict_set d (prm_name a) (PInt v))))"

definition action_params_dict ::
  "P4Info \<Rightarrow> string \<Rightarrow> pyval list \<Rightarrow> py_error + (string \<times> pyval) list" where
  "action_params_dict p4info action action_data =
     (case get_action_params p4info action of
        None \<Rightarrow> Inl TypeError
      | Some ps \<Rightarrow> action_params_items action_data 0 ps [])"

definition p4ctl_add_group ::
  "P4RuntimeClient \<Rightarrow> string \<Rightarrow> string \<Rightarrow> (py_error + unit) \<times> P4RuntimeClient" where
  "p4ctl_add_group client tbl_name flow =
     (case parse_profile_group flow of
        Inl e \<Rightarrow> (Inl e, client)
      | Inr (group_id, members, max_size) \<Rightarrow>
          (case py_int 10 group_id of
             Inl e \<Rightarrow> (Inl e, client)
           | Inr g \<Rightarrow>
               if g = 0 then (Inr (), print client ''Group ID 0 is un-supported.'')
               else
                 (case bind_err (get_p4info client) (\<lambda>p4info.
                         bind_err (py_int 10 group_id) (\<lambda>gid.
                         bind_err (py_int 10 max_size) (\<lambda>sz.
                           buildActionProfileGroup p4info tbl_name gid sz
                             (map (\<lambda>c. [c]) members)))) of
                    Inl e \<Rightarrow> (Inl e, client)
                  | Inr apg \<Rightarrow>
                      write_update client
                        \<lparr>update_type = INSERT, update_entity = action_profile_group apg\<rparr>)))"

definition p4ctl_del_group ::
  "P4RuntimeClient \<Rightarrow> string \<Rightarrow> string \<Rightarrow> (py_error + unit) \<times> P4RuntimeClient" where
  "p4ctl_del_group client tbl_name flow =
     (case bind_err (index (split ''group_id='' flow) 1) (\<lambda>group_id.
             bind_err (py_int 10 group_id) (\<lambda>g. Inr (group_id, g))) of
        Inl e \<Rightarrow> (Inl e, client)
      | Inr (group_id, g) \<Rightarrow>
          if g = 0 then (Inr (), print client ''Group ID 0 is un-supported.'')
          else
            (case bind_err (get_p4info client) (\<lambda>p4info.
                    bind_err (py_int 10 group_id) (\<lambda>gid.
                      buildActionProfileGroup p4info tbl_name gid 0 [])) of
               Inl e \<Rightarrow> (Inl e, client)
             | Inr apg \<Rightarrow>
                 write_update client
                   \<lparr>update_type = DELETE, update_entity = action_profile_group apg\<rparr>))"

definition p4ctl_add_member ::
  "(string \<Rightarrow> py_error + bytes) \<Rightarrow> P4RuntimeClient \<Rightarrow> string \<Rightarrow> string
     \<Rightarrow> (py_error + unit) \<times> P4RuntimeClient" where
  "p4ctl_add_member inet_aton client tbl_name flow =
     (case parse_profile_mem inet_aton flow of
        Inl e \<Rightarrow> (Inl e, client)
      | Inr (action, action_data, mem_id) \<Rightarrow>
          (case py_int 10 mem_id of
             Inl e \<Rightarrow> (Inl e, client)
           | Inr m \<Rightarrow>
               if m = 0 then (Inr (), print client ''Member ID 0 is un-supported.'')
               else
                 (case bind_err (get_p4info client) (\<lambda>p4info.
                         bind_err (py_int 10 mem_id) (\<lambda>mid.
                         bind_err (action_params_dict p4info action action_data) (\<lambda>aps.
                           buildActionProfileMember inet_aton p4info tbl_name mid (Some action)
                             (Some aps)))) of
                    Inl e \<Rightarrow> (Inl e, client)
                  | Inr apm \<Rightarrow>
                      write_update client
                        \<lparr>update_type = INSERT, update_entity = action_profile_member apm\<rparr>)))"

definition p4ctl_del_member ::
  "(string \<Rightarrow> py_error + bytes) \<Rightarrow> P4RuntimeClient \<Rightarrow> string \<Rightarrow> string
     \<Rightarrow> (py_error + unit) \<times> P4RuntimeClient" where
  "p4ctl_del_member inet_aton client tbl_name flow =
     (case bind_err (index (split ''member_id='' flow) 1) (\<lambda>member_id.
             bind_err (py_int 10 member_id) (\<lambda>m. Inr (member_id, m))) of
        Inl e \<Rightarrow> (Inl e, client)
      | Inr (member_id, m) \<Rightarrow>
          if m = 0 then (Inr (), print client ''Member ID 0 is un-supported.'')
          else
            (case bind_err (get_p4info client) (\<lambda>p4info.
                    bind_err (py_int 10 member_id) (\<lambda>mid.
                      buildActionProfileMember inet_aton p4info tbl_name mid None None)) of
               Inl e \<Rightarrow> (Inl e, client)
             | Inr apm \<Rightarrow>
                 write_update client
                   \<lparr>update_type = DELETE, update_entity = action_profile_member apm\<rparr>))"


section \<open>Streaming session: the arbitration handshake\<close>

text \<open>
  The receiver thread puts every inbound stream message on \<^verbatim>\<open>stream_in_q\<close>, and the
  sentinel \<^verbatim>\<open>None\<close> when the stream fails. For the thread that runs the handshake the
  queue is the sequence of the items in the order they are put, each with the time at
  which it is put, counted from the start of \<^verbatim>\<open>get_stream_packet\<close> in the units of its
  timeout. The time type is any ordered ring with numerals. Only the blocking
  \<^verbatim>\<open>queue.get\<close> lets time pass: it returns the next item at the time it is put, or at once
  when it is there already, and raises \<^verbatim>\<open>queue.Empty\<close> when the item comes later than the
  wait allows.
\<close>

datatype StreamMessageResponse =
    Arbitration int
  | Packet
  | Digest
  | Idle_timeout_notification
  | Other
  | Error
  | Unset












section \<open>Token classes and example schemas\<close>


text \<open>The invariant of the schema that the data model states: within an entity type an
  id belongs to one entity, and so does a name or alias.\<close>

definition unique_ids :: "Preamble list \<Rightarrow> bool" where
  "unique_ids ps = (\<forall>a\<in>set ps. \<forall>b\<in>set ps. preamble_id a = preamble_id b \<longrightarrow> a = b)"

definition shares_name :: "Preamble \<Rightarrow> Preamble \<Rightarrow> bool" where
  "shares_name a b =
     (preamble_name a = preamble_name b \<or> preamble_name a = preamble_alias b
      \<or> preamble_alias a = preamble_name b \<or> preamble_alias a = preamble_alias b)"

definition unique_names :: "Preamble list \<Rightarrow> bool" where
  "unique_names ps = (\<forall>a\<in>set ps. \<forall>b\<in>set ps. shares_name a b \<longrightarrow> a = b)"

text \<open>A schema with two tables, one action and one action profile, for the examples.\<close>

definition example_p4info :: P4Info where
  "example_p4info =
     \<lparr>tables =
        [\<lparr>table_preamble =
            \<lparr>preamble_id = 1, preamble_name = ''pipe.t'', preamble_alias = ''t''\<rparr>,
          table_match_fields =
            [\<lparr>mf_id = 1, mf_name = ''f'', mf_bitwidth = 8, mf_match_type = EXACT\<rparr>]\<rparr>,
         \<lparr>table_preamble =
            \<lparr>preamble_id = 2, preamble_name = ''pipe.u'', preamble_alias = ''u''\<rparr>,
          table_match_fields = []\<rparr>],
      actions =
        [\<lparr>action_preamble =
            \<lparr>preamble_id = 5, preamble_name = ''pipe.a'', preamble_alias = ''a''\<rparr>,
          action_param_list = [\<lparr>prm_id = 1, prm_name = ''p'', prm_bitwidth = 8\<rparr>]\<rparr>],
      action_profiles =
        [\<lparr>action_profile_preamble =
            \<lparr>preamble_id = 7, preamble_name = ''pipe.ap'', preamble_alias = ''ap''\<rparr>\<rparr>]\<rparr>"

definition no_inet_aton :: "string \<Rightarrow> py_error + bytes" where
  "no_inet_aton s = Inl OSError"

text \<open>A client on a device that holds the example schema and accepts every write.\<close>

definition example_client :: P4RuntimeClient where
  "example_client =
     \<lparr>device_id = 1, election_id = (1, 0), device_p4info = Inr example_p4info,
      device_write = (\<lambda>req. None), written = [], stdout = []\<rparr>"

section \<open>Predicates used in the proofs\<close>

definition lowhex :: "string \<Rightarrow> bool" where
  "lowhex s = list_all (\<lambda>c. \<exists>d<16. c = hex_digit d) s"

text \<open>The iterator stands at a record whose canonical code is OK.\<close>

definition at_ok_record :: "P4RuntimeErrorIterator \<Rightarrow> bool" where
  "at_ok_record self =
     (idx self < length (errors self)
      \<and> (case errors self ! idx self of
            Any_Error e \<Rightarrow> canonical_code e = code_pb2_OK
          | _ \<Rightarrow> False))"
section \<open>Properties of the wire value codec\<close>


lemma digit_value_hex_digit: "d < 16 \<Longrightarrow> digit_value (hex_digit d) = Some d"
  by (auto simp: digit_value_def hex_digit_def Let_def)

lemma digit_in_hex_digit: "d < 16 \<Longrightarrow> digit_in 16 (hex_digit d)"
  by (simp add: digit_in_def digit_value_hex_digit)

lemma hex_digit_plain:
  assumes "d < 16"
  shows "\<not> is_space (hex_digit d)" "hex_digit d \<noteq> CHR ''_''" "hex_digit d \<noteq> CHR ''-''"
    "hex_digit d \<noteq> CHR ''+''" "hex_digit d \<noteq> CHR ''x''" "hex_digit d \<noteq> CHR ''X''"
  using assms digit_value_hex_digit [OF assms]
  by (auto simp: digit_value_def is_space_def Let_def split: if_splits)

lemma zero_char: "CHR ''0'' = hex_digit 0"
  by (rule of_char_eqI [where ?'a = nat]) (simp add: hex_digit_def)

lemma lowhex_hex_of_nat: "lowhex (hex_of_nat n)"
proof (induction n rule: hex_of_nat.induct)
  case (1 n)
  show ?case
  proof (cases "n < 16")
    case True
    then show ?thesis by (auto simp: hex_of_nat.simps [of n] lowhex_def)
  next
    case False
    have "\<exists>d<16. hex_digit (n mod 16) = hex_digit d"
      by (rule exI [of _ "n mod 16"]) simp
    with False 1 show ?thesis
      by (simp add: hex_of_nat.simps [of n] lowhex_def)
  qed
qed

lemma digits_value_snoc:
  "digits_value b (ds @ [c]) =
     (case digit_value c of Some d \<Rightarrow> digits_value b ds * b + d | None \<Rightarrow> digits_value b ds)"
  by (simp add: digits_value_def split: option.splits)

lemma digits_value_hex_of_nat: "digits_value 16 (hex_of_nat n) = n"
proof (induction n rule: hex_of_nat.induct)
  case (1 n)
  show ?case
  proof (cases "n < 16")
    case True
    then show ?thesis
      by (simp add: hex_of_nat.simps [of n] digits_value_def digit_value_hex_digit)
  next
    case False
    with 1 show ?thesis
      by (simp add: hex_of_nat.simps [of n] digits_value_snoc digit_value_hex_digit)
  qed
qed

lemma digits_value_zeros: "digits_value 16 (replicate k (CHR ''0'') @ s) = digits_value 16 s"
proof -
  have z: "digit_value (CHR ''0'') = Some 0" by (simp add: digit_value_def)
  have "foldl (\<lambda>acc c. case digit_value c of Some d \<Rightarrow> acc * 16 + d | None \<Rightarrow> acc) 0
          (replicate k (CHR ''0'')) = (0::nat)"
    by (induction k) (simp_all add: z)
  then show ?thesis by (simp add: digits_value_def)
qed

lemma length_hex_of_nat: "n < 16 ^ k \<Longrightarrow> 0 < k \<Longrightarrow> length (hex_of_nat n) \<le> k"
proof (induction n arbitrary: k rule: hex_of_nat.induct)
  case (1 n)
  show ?case
  proof (cases "n < 16")
    case True
    with 1 show ?thesis by (simp add: hex_of_nat.simps [of n])
  next
    case False
    from 1(3) obtain j where k: "k = Suc j" by (cases k) auto
    from False 1(2) k have "0 < j" by (cases j) auto
    moreover from 1(2) k have "n div 16 < 16 ^ j"
      by (simp add: less_mult_imp_div_less mult.commute)
    ultimately have "length (hex_of_nat (n div 16)) \<le> j" using 1(1) False by blast
    with False k show ?thesis by (simp add: hex_of_nat.simps [of n])
  qed
qed

lemma lowhex_append: "lowhex (a @ b) = (lowhex a \<and> lowhex b)"
  by (simp add: lowhex_def)

lemma lowhex_zeros: "lowhex (replicate k (CHR ''0''))"
proof -
  have "\<exists>d<16. CHR ''0'' = hex_digit d"
    using zero_char by (intro exI [of _ 0]) simp
  then show ?thesis by (simp add: lowhex_def list_all_iff)
qed

lemma a2b_hex_lowhex:
  "lowhex s \<Longrightarrow> even (length s) \<Longrightarrow>
     \<exists>bs. a2b_hex s = Inr bs \<and> b2a_hex bs = s \<and> 2 * length bs = length s"
proof (induction s rule: a2b_hex.induct)
  case 1
  then show ?case by (simp add: b2a_hex_def)
next
  case (2 c)
  then show ?case by simp
next
  case (3 h l cs)
  from 3(2) obtain a b where a: "a < 16" "h = hex_digit a" and b: "b < 16" "l = hex_digit b"
    and cs: "lowhex cs"
    by (auto simp: lowhex_def)
  from 3(3) have "even (length cs)" by simp
  with 3(1) cs a b obtain bs where bs: "a2b_hex cs = Inr bs" "b2a_hex bs = cs"
    "2 * length bs = length cs"
    by (auto simp: digit_in_hex_digit)
  define w :: byte where "w = word_of_nat (digits_value 16 [h, l])"
  have v: "digits_value 16 [h, l] = a * 16 + b"
    using a b by (simp add: digits_value_def digit_value_hex_digit)
  have lt: "a * 16 + b < 256" using a b by simp
  have "unat w = (a * 16 + b) mod 2 ^ LENGTH(8)"
    unfolding w_def v by (rule unat_of_nat)
  with lt have u: "unat w = a * 16 + b" by simp
  have "b2a_hex (w # bs) = h # l # cs"
    using a b bs(2) u by (simp add: b2a_hex_def)
  moreover have "a2b_hex (h # l # cs) = Inr (w # bs)"
    using a b bs(1) by (simp add: digit_in_hex_digit w_def)
  ultimately show ?case using bs(3) by simp
qed

lemma py_int_16_lowhex:
  assumes "lowhex s" "s \<noteq> []"
  shows "py_int 16 s = Inr (int (digits_value 16 s))"
proof -
  from assms obtain c r where s: "s = c # r" by (cases s) auto
  with assms obtain d where d: "d < 16" "c = hex_digit d" by (auto simp: lowhex_def)
  have all: "\<forall>x\<in>set s. x = CHR ''_'' \<or> digit_in 16 x"
    using assms(1) by (auto simp: lowhex_def list_all_iff digit_in_hex_digit)
  have nu: "\<forall>x\<in>set s. x \<noteq> CHR ''_''"
  proof
    fix x assume "x \<in> set s"
    with assms(1) obtain e where "e < 16" "x = hex_digit e"
      by (auto simp: lowhex_def list_all_iff)
    then show "x \<noteq> CHR ''_''" by (simp add: hex_digit_plain)
  qed
  have ndu: "no_double_underscore s" using nu
    by (induction s rule: no_double_underscore.induct) auto
  have tw: "takeWhile (\<lambda>c. c = CHR ''_'' \<or> digit_in 16 c) s = s"
    using all by (simp add: takeWhile_eq_all_conv)
  have dw: "dropWhile (\<lambda>c. c = CHR ''_'' \<or> digit_in 16 c) s = []"
    using all by simp
  have dws: "dropWhile is_space s = s"
    using s d by (simp add: hex_digit_plain)
  have sign: "hd s \<noteq> CHR ''-''" "hd s \<noteq> CHR ''+''" "hd s \<noteq> CHR ''_''"
    using s d by (simp_all add: hex_digit_plain)
  have lastu: "last s \<noteq> CHR ''_''" using nu assms(2) last_in_set by blast
  have pfx: "(case s of
                   z # p # _ \<Rightarrow>
                     if z \<noteq> CHR ''0'' then 0
                     else if p = CHR ''x'' \<or> p = CHR ''X'' then 16
                     else if p = CHR ''o'' \<or> p = CHR ''O'' then 8
                     else if p = CHR ''b'' \<or> p = CHR ''B'' then 2
                     else (0::nat)
                 | _ \<Rightarrow> 0) \<noteq> 16"
  proof (cases r)
    case Nil
    with s show ?thesis by simp
  next
    case (Cons p r')
    with assms(1) s obtain e where "e < 16" "p = hex_digit e" by (auto simp: lowhex_def)
    then have "p \<noteq> CHR ''x''" "p \<noteq> CHR ''X''" by (simp_all add: hex_digit_plain)
    with s Cons show ?thesis by simp
  qed
  show ?thesis
    unfolding py_int_def Let_def dws
    using sign lastu ndu pfx assms(2) by (simp add: tw dw)
qed

lemma pow16: "(2::nat) ^ bw \<le> 16 ^ (2 * ((bw + 7) div 8))"
proof -
  have "(16::nat) ^ (2 * ((bw + 7) div 8)) = 2 ^ (8 * ((bw + 7) div 8))"
    by (simp add: power_mult)
  moreover have "bw \<le> 8 * ((bw + 7) div 8)" by presburger
  ultimately show ?thesis by (simp add: power_increasing)
qed

text \<open>
  C4, as the code has it: for a bit width of at least 1 and every integer \<open>n\<close> with
  \<open>0 \<le> n < 2 ^ bitwidth\<close>, \<^const>\<open>encodeNum\<close> returns a byte string of length
  \<open>ceil(bitwidth / 8)\<close> that \<^const>\<open>decodeNum\<close> turns back into \<open>n\<close>.
\<close>

theorem encodeNum_roundtrip:
  assumes "1 \<le> bitwidth" "0 \<le> n" "n < 2 ^ bitwidth"
  shows "\<exists>bs. encodeNum n bitwidth = Inr bs \<and> length bs = bitwidthToBytes bitwidth
               \<and> decodeNum bs = Inr n"
proof -
  define m where "m = nat n"
  define bl where "bl = bitwidthToBytes bitwidth"
  have n: "n = int m" using assms(2) by (simp add: m_def)
  have "m < 2 ^ bitwidth" using assms(2,3) by (simp add: m_def nat_less_iff)
  then have m16: "m < 16 ^ (2 * bl)" using pow16 [of bitwidth]
    by (simp add: bl_def bitwidthToBytes_def)
  have blpos: "0 < 2 * bl" using assms(1) by (simp add: bl_def bitwidthToBytes_def)
  have len: "length (hex_of_nat m) \<le> 2 * bl" using length_hex_of_nat [OF m16 blpos] .
  define val where "val = replicate (bl * 2 - length (hex_of_nat m)) (CHR ''0'') @ hex_of_nat m"
  have lval: "length val = 2 * bl" using len by (simp add: val_def)
  have hval: "lowhex val" by (simp add: val_def lowhex_append lowhex_zeros lowhex_hex_of_nat)
  from a2b_hex_lowhex [OF hval] lval obtain bs where
    bs: "a2b_hex val = Inr bs" "b2a_hex bs = val" "2 * length bs = length val" by auto
  have ne: "val \<noteq> []" using lval blpos by auto
  have "decodeNum bs = Inr (int (digits_value 16 val))"
    unfolding decodeNum_def bs(2) using py_int_16_lowhex [OF hval ne] .
  also have "digits_value 16 val = m"
    by (simp add: val_def digits_value_zeros digits_value_hex_of_nat)
  finally have dec: "decodeNum bs = Inr n" using n by simp
  have fx: "fmt_x n = hex_of_nat m" using assms(2) by (simp add: fmt_x_def m_def)
  have enc: "encodeNum n bitwidth = Inr bs"
    unfolding encodeNum_def Let_def fx using assms(3) bs(1) by (simp add: val_def bl_def)
  from bs(3) lval have "length bs = bl" by simp
  with enc dec show ?thesis by (simp add: bl_def)
qed

theorem encodeNum_roundtrip_witness:
  "(1::nat) \<le> 9 \<and> (0::int) \<le> 300 \<and> (300::int) < 2 ^ 9
   \<and> (\<exists>bs. encodeNum 300 9 = Inr bs \<and> length bs = bitwidthToBytes 9 \<and> decodeNum bs = Inr 300)"
  using encodeNum_roundtrip [of 9 300] by simp

text \<open>
  C4 as stated fails at bit width 0: \<open>n = 0\<close> is in range, the hex string \<^verbatim>\<open>"0"\<close> is
  not padded (\<^verbatim>\<open>"0" * -1\<close> is empty) and the hex codec refuses its odd length.
\<close>

theorem encodeNum_zero_width_counterexample:
  "(0::int) \<le> 0 \<and> (0::int) < 2 ^ (0::nat) \<and> encodeNum 0 0 = Inl ValueError"
  by (simp add: encodeNum_def bitwidthToBytes_def fmt_x_def hex_of_nat.simps hex_digit_def)

text \<open>
  C5: for every integer \<open>n\<close> and bit width with \<open>n \<ge> 2 ^ bitwidth\<close>,
  \<^const>\<open>encodeNum\<close> raises the exception "does not fit" and returns no byte string.
\<close>

theorem encodeNum_too_large:
  "n \<ge> 2 ^ bitwidth \<Longrightarrow> encodeNum n bitwidth = Inl Exception"
  by (simp add: encodeNum_def)

theorem encodeNum_too_large_witness:
  "(256::int) \<ge> 2 ^ 8 \<and> encodeNum 256 8 = Inl Exception"
  using encodeNum_too_large [of 8 256] by simp

text \<open>
  C10: a string that matches neither the MAC pattern nor the IPv4 pattern and is not a
  digit string is returned by \<^const>\<open>encode\<close> as it is, a string and not bytes, when its
  length in characters is \<open>ceil(bitwidth / 8)\<close>; for any other length the final assertion
  fails.
\<close>

theorem encode_opaque_string:
  assumes "\<not> matchesMac x" "\<not> matchesIPv4 x" "\<not> isdigit x"
  shows "encode inet_aton (PStr x) bitwidth =
           (if length x = bitwidthToBytes bitwidth then Inr (PStr x) else Inl AssertionError)"
  using assms by (simp add: encode_def bind_err_def)

theorem encode_opaque_string_witness:
  "\<not> matchesMac ''abc'' \<and> \<not> matchesIPv4 ''abc'' \<and> \<not> isdigit ''abc''
   \<and> encode (\<lambda>_. Inl OSError) (PStr ''abc'') 24 = Inr (PStr ''abc'')
   \<and> encode (\<lambda>_. Inl OSError) (PStr ''abc'') 32 = Inl AssertionError"
proof -
  have h: "\<not> matchesMac ''abc''" "\<not> matchesIPv4 ''abc''" "\<not> isdigit ''abc''"
    by code_simp+
  show ?thesis
    using h encode_opaque_string [OF h, of "\<lambda>_. Inl OSError" 24]
      encode_opaque_string [OF h, of "\<lambda>_. Inl OSError" 32]
    by (simp add: bitwidthToBytes_def)
qed


section \<open>Properties of the schema index\<close>

lemma find_unique:
  assumes "e \<in> set xs" "P e" "\<forall>a\<in>set xs. P a \<longrightarrow> a = e"
  shows "find P xs = Some e"
  using assms
proof (induction xs)
  case Nil
  then show ?case by simp
next
  case (Cons x xs)
  show ?case
  proof (cases "P x")
    case True
    with Cons.prems(3) have "x = e" by simp
    with True show ?thesis by simp
  next
    case False
    with Cons.prems(1,2) have "e \<in> set xs" by auto
    moreover from Cons.prems(3) have "\<forall>a\<in>set xs. P a \<longrightarrow> a = e" by simp
    ultimately have "find P xs = Some e" using Cons.IH Cons.prems(2) by blast
    with False show ?thesis by simp
  qed
qed

lemma get_by_name:
  assumes "unique_names (preambles p k)" "e \<in> set (preambles p k)" "n \<noteq> []"
    "n = preamble_name e \<or> n = preamble_alias e"
  shows "get p k (Some n) None = Inr e"
proof -
  let ?P = "\<lambda>pre. preamble_name pre = n \<or> preamble_alias pre = n"
  have "\<forall>a\<in>set (preambles p k). ?P a \<longrightarrow> a = e"
  proof (intro ballI impI)
    fix a assume a: "a \<in> set (preambles p k)" "?P a"
    from a(2) assms(4) have "shares_name a e"
      unfolding shares_name_def by (elim disjE) simp_all
    moreover have "\<forall>b\<in>set (preambles p k). shares_name a b \<longrightarrow> a = b"
      using assms(1) a(1) unfolding unique_names_def by (rule bspec)
    then have "shares_name a e \<longrightarrow> a = e" using assms(2) by (rule bspec)
    ultimately show "a = e" by (rule rev_mp)
  qed
  moreover have "?P e" using assms(4) by (elim disjE) simp_all
  moreover note assms(2)
  ultimately have f: "find ?P (preambles p k) = Some e"
    by (intro find_unique)
  have "get p k (Some n) None =
          (case find ?P (preambles p k) of Some pre \<Rightarrow> Inr pre | None \<Rightarrow> Inl AttributeError)"
    using assms(3) by (simp add: get_def)
  then show ?thesis unfolding f by simp
qed

lemma get_by_id:
  assumes "unique_ids (preambles p k)" "e \<in> set (preambles p k)"
  shows "get p k None (Some (uint (preamble_id e))) = Inr e"
proof -
  let ?P = "\<lambda>pre. Some (uint (preamble_id e)) = Some (uint (preamble_id pre))"
  have "\<forall>a\<in>set (preambles p k). ?P a \<longrightarrow> a = e"
  proof (intro ballI impI)
    fix a assume a: "a \<in> set (preambles p k)" "?P a"
    then have "preamble_id a = preamble_id e" by (simp add: word_uint_eq_iff)
    moreover have "\<forall>b\<in>set (preambles p k). preamble_id a = preamble_id b \<longrightarrow> a = b"
      using assms(1) a(1) unfolding unique_ids_def by (rule bspec)
    then have "preamble_id a = preamble_id e \<longrightarrow> a = e" using assms(2) by (rule bspec)
    ultimately show "a = e" by (rule rev_mp)
  qed
  moreover have "?P e" by simp
  moreover note assms(2)
  ultimately have f: "find ?P (preambles p k) = Some e"
    by (intro find_unique)
  have "get p k None (Some (uint (preamble_id e))) =
          (case find ?P (preambles p k) of Some pre \<Rightarrow> Inr pre | None \<Rightarrow> Inl AttributeError)"
    by (simp add: get_def)
  then show ?thesis unfolding f by simp
qed

text \<open>
  C6, as the code has it: in a schema whose entities of one type have their own ids and
  their own names and aliases, for an entity with a name that is not empty,
  \<open>get_id(get_name(id))\<close> is its id; a name or alias \<open>n\<close> of it that is not empty
  resolves to the same id as its name; and \<open>get_name(get_id(n))\<close> is its name (so it
  is \<open>n\<close> when \<open>n\<close> is the name, and not when \<open>n\<close> is a different alias).
\<close>

theorem schema_lookup_consistent:
  assumes "unique_ids (preambles p k)" "unique_names (preambles p k)"
    "e \<in> set (preambles p k)" "preamble_name e \<noteq> []"
    "n \<noteq> []" "n = preamble_name e \<or> n = preamble_alias e"
  shows "bind_err (get_name p k (uint (preamble_id e))) (get_id p k) = Inr (uint (preamble_id e))
       \<and> get_id p k n = Inr (uint (preamble_id e))
       \<and> get_id p k (preamble_name e) = Inr (uint (preamble_id e))
       \<and> bind_err (get_id p k n) (get_name p k) = Inr (preamble_name e)"
proof -
  have byname: "get p k (Some (preamble_name e)) None = Inr e"
    using get_by_name [OF assms(2,3,4)] by simp
  have byn: "get p k (Some n) None = Inr e"
    using get_by_name [OF assms(2,3,5,6)] .
  have byid: "get p k None (Some (uint (preamble_id e))) = Inr e"
    using get_by_id [OF assms(1,3)] .
  have gn: "get_name p k (uint (preamble_id e)) = Inr (preamble_name e)"
    unfolding get_name_def byid by simp
  have gi: "get_id p k (preamble_name e) = Inr (uint (preamble_id e))"
    unfolding get_id_def byname by simp
  have gin: "get_id p k n = Inr (uint (preamble_id e))"
    unfolding get_id_def byn by simp
  have c1: "bind_err (get_name p k (uint (preamble_id e))) (get_id p k) = Inr (uint (preamble_id e))"
    unfolding gn bind_err_def using gi by simp
  have c2: "bind_err (get_id p k n) (get_name p k) = Inr (preamble_name e)"
    unfolding gin bind_err_def using gn by simp
  from c1 gin gi c2 show ?thesis by (intro conjI)
qed

theorem schema_lookup_consistent_witness:
  "bind_err (get_name example_p4info Tables 2) (get_id example_p4info Tables) = Inr 2
   \<and> get_id example_p4info Tables ''u'' = Inr 2
   \<and> get_id example_p4info Tables ''pipe.u'' = Inr 2
   \<and> bind_err (get_id example_p4info Tables ''u'') (get_name example_p4info Tables) = Inr ''pipe.u''"
proof -
  define e where "e = \<lparr>preamble_id = 2 :: uint32, preamble_name = ''pipe.u'', preamble_alias = ''u''\<rparr>"
  have ps: "preambles example_p4info Tables =
      [\<lparr>preamble_id = 1, preamble_name = ''pipe.t'', preamble_alias = ''t''\<rparr>, e]"
    by (simp add: example_p4info_def e_def)
  have h1: "unique_ids (preambles example_p4info Tables)"
    unfolding ps unique_ids_def by (simp add: e_def)
  have h2: "unique_names (preambles example_p4info Tables)"
    unfolding ps unique_names_def by (simp add: e_def shares_name_def)
  have h3: "e \<in> set (preambles example_p4info Tables)" unfolding ps by simp
  have h4: "preamble_name e \<noteq> []" by (simp add: e_def)
  have h5: "''u'' \<noteq> []" by simp
  have h6: "''u'' = preamble_name e \<or> ''u'' = preamble_alias e" by (simp add: e_def)
  have r: "uint (preamble_id e) = 2" "preamble_name e = ''pipe.u''" by (simp_all add: e_def)
  have "bind_err (get_name example_p4info Tables (uint (preamble_id e))) (get_id example_p4info Tables)
          = Inr (uint (preamble_id e))
       \<and> get_id example_p4info Tables ''u'' = Inr (uint (preamble_id e))
       \<and> get_id example_p4info Tables (preamble_name e) = Inr (uint (preamble_id e))
       \<and> bind_err (get_id example_p4info Tables ''u'') (get_name example_p4info Tables)
          = Inr (preamble_name e)"
    by (rule schema_lookup_consistent [OF h1 h2 h3 h4 h5 h6])
  then show ?thesis unfolding r .
qed


lemma example_tables:
  "preambles example_p4info Tables =
     [\<lparr>preamble_id = 1, preamble_name = ''pipe.t'', preamble_alias = ''t''\<rparr>,
      \<lparr>preamble_id = 2, preamble_name = ''pipe.u'', preamble_alias = ''u''\<rparr>]"
  by (simp add: example_p4info_def)

lemma example_get_t_by_alias: "get example_p4info Tables (Some ''t'') None =
      Inr \<lparr>preamble_id = 1, preamble_name = ''pipe.t'', preamble_alias = ''t''\<rparr>"
  unfolding get_def example_tables by simp

lemma example_get_t_by_id: "get example_p4info Tables None (Some 1) =
      Inr \<lparr>preamble_id = 1, preamble_name = ''pipe.t'', preamble_alias = ''t''\<rparr>"
  unfolding get_def example_tables by simp

text \<open>
  C6 as stated fails for an alias that differs from the name: the table \<^verbatim>\<open>pipe.t\<close> is
  found by its alias \<^verbatim>\<open>t\<close>, and \<open>get_name(get_id("t"))\<close> is \<^verbatim>\<open>pipe.t\<close>, not \<^verbatim>\<open>t\<close>.
\<close>

theorem alias_roundtrip_counterexample:
  "get_id example_p4info Tables ''t'' = Inr 1
   \<and> bind_err (get_id example_p4info Tables ''t'') (get_name example_p4info Tables) = Inr ''pipe.t''
   \<and> ''pipe.t'' \<noteq> ''t''"
proof -
  have i: "get_id example_p4info Tables ''t'' = Inr 1"
    unfolding get_id_def example_get_t_by_alias by simp
  have n: "get_name example_p4info Tables 1 = Inr ''pipe.t''"
    unfolding get_name_def example_get_t_by_id by simp
  have c: "bind_err (get_id example_p4info Tables ''t'') (get_name example_p4info Tables) = Inr ''pipe.t''"
    unfolding i bind_err_def using n by simp
  have d: "''pipe.t'' \<noteq> ''t''" by simp
  from i c d show ?thesis by blast
qed



section \<open>Properties of the builders\<close>

lemma bind_err_Inr: "bind_err m f = Inr y \<longleftrightarrow> (\<exists>x. m = Inr x \<and> f x = Inr y)"
  by (cases m) (simp_all add: bind_err_def)

lemma bind_err_simps: "bind_err (Inr x) f = f x" "bind_err (Inl e) f = Inl e"
  by (simp_all add: bind_err_def)

lemma mapM_err_length: "mapM_err f xs = Inr ys \<Longrightarrow> length ys = length xs"
proof (induction xs arbitrary: ys)
  case Nil
  then show ?case by simp
next
  case (Cons x xs)
  from Cons.prems obtain y zs where "f x = Inr y" "mapM_err f xs = Inr zs" "ys = y # zs"
    by (auto split: sum.splits)
  with Cons.IH show ?case by simp
qed

lemma example_default_entry:
  "buildTableEntry no_inet_aton example_p4info ''pipe.t'' (Some [(''f'', PStr ''1'')]) True None None
       None 0 0 =
     Inr \<lparr>te_table_id = 1,
          te_match = [\<lparr>fm_field_id = 1, fm_field_match_type = FM_exact [1]\<rparr>],
          te_action = TA_unset, te_priority = 0, te_is_default_action = True\<rparr>"
  by code_simp

text \<open>
  C1, as the code has it: when \<^const>\<open>buildTableEntry\<close> is called with \<open>default_action\<close>
  true and returns a table entry, the entry has \<open>is_default_action\<close> set and one match
  field for every item of the \<open>match_fields\<close> argument; its list of match fields is
  empty when the argument is \<^verbatim>\<open>None\<close> or empty, and only then.
\<close>

theorem default_entry_match_fields:
  assumes "buildTableEntry inet_aton p4info table_name match_fields True action_name
             action_params priority group_id member_id = Inr te"
  shows "te_is_default_action te
       \<and> length (te_match te) = (case match_fields of None \<Rightarrow> 0 | Some mfs \<Rightarrow> length mfs)"
proof -
  from assms obtain ms act2 table_id prio where
    ms: "(case match_fields of
            None \<Rightarrow> Inr []
          | Some mfs \<Rightarrow>
              mapM_err (\<lambda>(match_field_name, v).
                get_match_field_pb inet_aton p4info table_name match_field_name v) mfs) = Inr ms"
    and te: "te = \<lparr>te_table_id = table_id, te_match = ms, te_action = act2, te_priority = prio,
                   te_is_default_action = True\<rparr>"
    unfolding buildTableEntry_def bind_err_Inr by blast
  have "length ms = (case match_fields of None \<Rightarrow> 0 | Some mfs \<Rightarrow> length mfs)"
  proof (cases match_fields)
    case None
    with ms show ?thesis by simp
  next
    case (Some mfs)
    with ms show ?thesis by (simp add: mapM_err_length)
  qed
  with te show ?thesis by simp
qed

theorem default_entry_match_fields_witness:
  "te_is_default_action
     \<lparr>te_table_id = 1,
      te_match = [\<lparr>fm_field_id = 1, fm_field_match_type = FM_exact [1]\<rparr>],
      te_action = TA_unset, te_priority = 0, te_is_default_action = True\<rparr>
   \<and> length (te_match
       \<lparr>te_table_id = 1,
        te_match = [\<lparr>fm_field_id = 1, fm_field_match_type = FM_exact [1]\<rparr>],
        te_action = TA_unset, te_priority = 0, te_is_default_action = True\<rparr>)
     = (case Some [(''f'', PStr ''1'')] of None \<Rightarrow> 0 | Some mfs \<Rightarrow> length mfs)"
  by (rule default_entry_match_fields [OF example_default_entry])

text \<open>
  C1 as stated fails when a match field is supplied: the default entry for table
  \<^verbatim>\<open>pipe.t\<close> built with \<^verbatim>\<open>match_fields = {"f": "1"}\<close> has \<open>is_default_action\<close> set and
  carries the exact match on \<^verbatim>\<open>f\<close>.
\<close>

theorem default_entry_counterexample:
  "buildTableEntry no_inet_aton example_p4info ''pipe.t'' (Some [(''f'', PStr ''1'')]) True None None
       None 0 0 =
     Inr \<lparr>te_table_id = 1,
          te_match = [\<lparr>fm_field_id = 1, fm_field_match_type = FM_exact [1]\<rparr>],
          te_action = TA_unset, te_priority = 0, te_is_default_action = True\<rparr>
   \<and> [\<lparr>fm_field_id = 1, fm_field_match_type = FM_exact [1]\<rparr>] \<noteq> []"
  using example_default_entry by simp

subsection \<open>Members of an action profile group\<close>














section \<open>Properties of the error decoder\<close>

lemma next_returns_not_at_ok:
  assumes "P4RuntimeErrorIterator_next self = Some y"
  shows "\<not> at_ok_record self"
proof (rule P4RuntimeErrorIterator_next.raw_induct [where P = "\<lambda>x y. \<not> at_ok_record x", OF _ assms])
  fix f :: "P4RuntimeErrorIterator \<Rightarrow> (py_error + (nat \<times> p4_Error) \<times> P4RuntimeErrorIterator) option"
    and x y
  assume IH: "\<And>x y. f x = Some y \<Longrightarrow> \<not> at_ok_record x"
    and eq: "(if idx x < length (errors x)
      then case errors x ! idx x of
           Any_Error p4_error \<Rightarrow>
             if canonical_code p4_error = code_pb2_OK
             then f x
             else Some (Inr ((idx x, p4_error), x\<lparr>idx := idx x + 1\<rparr>))
           | Any_other \<Rightarrow>
               Some (Inl (P4RuntimeErrorFormatException ''Cannot convert Any message to p4.Error''))
           | Any_malformed \<Rightarrow> Some (Inl DecodeError)
      else Some (Inl StopIteration)) = Some y"
  show "\<not> at_ok_record x"
  proof
    assume s: "at_ok_record x"
    then have "f x = Some y" using eq
      by (auto simp: at_ok_record_def split: Any.splits)
    from IH [OF this] s show False by blast
  qed
qed

lemma next_stuck: "at_ok_record self \<Longrightarrow> P4RuntimeErrorIterator_next self = None"
  using next_returns_not_at_ok by (cases "P4RuntimeErrorIterator_next self") auto

lemma collect_stuck: "at_ok_record self \<Longrightarrow> collect_errors self acc = None"
  by (subst collect_errors.simps) (simp add: next_stuck)

lemma example_init:
  "P4RuntimeErrorIterator_init example_write_error = Inr \<lparr>errors = example_details, idx = 0\<rparr>"
  by (simp add: P4RuntimeErrorIterator_init_def example_write_error_def example_details_def)

lemma example_at_ok: "at_ok_record \<lparr>errors = example_details, idx = 0\<rparr>"
  by (simp add: at_ok_record_def example_details_def code_pb2_OK_def)

text \<open>A list of one failed record is collected with its index.\<close>

lemma failed_record_collected:
  assumes "canonical_code e \<noteq> code_pb2_OK"
  shows "collect_errors \<lparr>errors = [Any_Error e], idx = 0\<rparr> [] = Some (Inr [(0, e)])"
proof -
  have n0: "P4RuntimeErrorIterator_next \<lparr>errors = [Any_Error e], idx = 0\<rparr>
              = Some (Inr ((0, e), \<lparr>errors = [Any_Error e], idx = Suc 0\<rparr>))"
    using assms by (subst P4RuntimeErrorIterator_next.simps) simp
  have n1: "P4RuntimeErrorIterator_next \<lparr>errors = [Any_Error e], idx = Suc 0\<rparr> = Some (Inl StopIteration)"
    by (subst P4RuntimeErrorIterator_next.simps) simp
  have "collect_errors \<lparr>errors = [Any_Error e], idx = Suc 0\<rparr> [(0, e)] = Some (Inr [(0, e)])"
    by (subst collect_errors.simps) (simp add: n1)
  then show ?thesis
    by (subst collect_errors.simps) (simp add: n0)
qed

text \<open>
  C2 fails on the code: for a write error whose details are an OK record followed by a
  failed one, the first call of \<^verbatim>\<open>__next__\<close> never returns, and neither does the
  constructor of \<^verbatim>\<open>P4RuntimeWriteException\<close> that iterates: at the OK record the loop
  continues without advancing \<open>idx\<close>.
\<close>

theorem error_iterator_never_passes_ok:
  "P4RuntimeErrorIterator_init example_write_error = Inr \<lparr>errors = example_details, idx = 0\<rparr>
   \<and> P4RuntimeErrorIterator_next \<lparr>errors = example_details, idx = 0\<rparr> = None
   \<and> P4RuntimeWriteException_init example_write_error = None"
proof -
  have "P4RuntimeErrorIterator_next \<lparr>errors = example_details, idx = 0\<rparr> = None"
    by (rule next_stuck [OF example_at_ok])
  moreover have "P4RuntimeWriteException_init example_write_error = None"
    unfolding P4RuntimeWriteException_init_def example_init
    by (simp add: collect_stuck [OF example_at_ok] example_write_error_def)
  ultimately show ?thesis using example_init by blast
qed

text \<open>
  C3: for an RPC failure with status code "unknown" whose trailing metadata has no
  \<^verbatim>\<open>grpc-status-details-bin\<close> entry, or whose first such entry parses to a status with an
  empty details list, the constructor of the iterator raises
  \<^verbatim>\<open>P4RuntimeErrorFormatException\<close>, and so does the constructor of
  \<^verbatim>\<open>P4RuntimeWriteException\<close>: the caller gets the exception and no list of errors.
\<close>

theorem malformed_error_raises:
  assumes "code grpc_error = UNKNOWN"
    and "(\<forall>meta\<in>set (trailing_metadata grpc_error). fst meta \<noteq> ''grpc-status-details-bin'')
       \<or> (\<exists>st. find (\<lambda>meta. fst meta = ''grpc-status-details-bin'') (trailing_metadata grpc_error)
                  = Some (''grpc-status-details-bin'', Status_bytes st)
               \<and> details st = [])"
  shows "\<exists>msg. P4RuntimeErrorIterator_init grpc_error = Inl (P4RuntimeErrorFormatException msg)
             \<and> P4RuntimeWriteException_init grpc_error = Some (Inl (P4RuntimeErrorFormatException msg))"
proof -
  let ?f = "find (\<lambda>meta. fst meta = ''grpc-status-details-bin'') (trailing_metadata grpc_error)"
  from assms(2) have "\<exists>msg. P4RuntimeErrorIterator_init grpc_error = Inl (P4RuntimeErrorFormatException msg)"
  proof
    assume "\<forall>meta\<in>set (trailing_metadata grpc_error). fst meta \<noteq> ''grpc-status-details-bin''"
    then have "\<not> (\<exists>meta. meta \<in> set (trailing_metadata grpc_error)
                  \<and> fst meta = ''grpc-status-details-bin'')" by blast
    then have "?f = None" unfolding find_None_iff .
    then show ?thesis using assms(1) unfolding P4RuntimeErrorIterator_init_def by simp
  next
    assume "\<exists>st. ?f = Some (''grpc-status-details-bin'', Status_bytes st) \<and> details st = []"
    then obtain st where st: "?f = Some (''grpc-status-details-bin'', Status_bytes st)"
      "details st = []" by blast
    show ?thesis using assms(1) st(2) unfolding P4RuntimeErrorIterator_init_def st(1) by simp
  qed
  then obtain msg where m: "P4RuntimeErrorIterator_init grpc_error = Inl (P4RuntimeErrorFormatException msg)"
    by blast
  have "P4RuntimeWriteException_init grpc_error = Some (Inl (P4RuntimeErrorFormatException msg))"
    unfolding P4RuntimeWriteException_init_def m using assms(1) by simp
  with m show ?thesis by blast
qed

theorem malformed_error_raises_witness:
  "\<exists>msg. P4RuntimeErrorIterator_init example_bare_error = Inl (P4RuntimeErrorFormatException msg)
      \<and> P4RuntimeWriteException_init example_bare_error = Some (Inl (P4RuntimeErrorFormatException msg))"
proof -
  have c: "code example_bare_error = UNKNOWN" by (simp add: example_bare_error_def)
  have n: "(\<forall>meta\<in>set (trailing_metadata example_bare_error). fst meta \<noteq> ''grpc-status-details-bin'')
       \<or> (\<exists>st. find (\<lambda>meta. fst meta = ''grpc-status-details-bin'') (trailing_metadata example_bare_error)
                  = Some (''grpc-status-details-bin'', Status_bytes st)
               \<and> details st = [])"
    by (rule disjI1) (simp add: example_bare_error_def)
  show ?thesis by (rule malformed_error_raises [OF c n])
qed


section \<open>Properties of the action profile commands\<close>

lemma print_keeps_writes:
  "written (print client line) = written client"
  "device_p4info (print client line) = device_p4info client"
  by (simp_all add: print_def)

text \<open>
  C8: when the group id parsed from the flow of \<^verbatim>\<open>add-action-profile-group\<close> or
  \<^verbatim>\<open>delete-action-profile-group\<close>, or the member id parsed from the flow of
  \<^verbatim>\<open>add-action-profile-member\<close> or \<^verbatim>\<open>delete-action-profile-member\<close>, is 0, the command
  prints its warning and returns: the client is as before but for the printed line, so no
  entity was built into a request and no \<^verbatim>\<open>Write\<close> was sent.
\<close>

theorem id_zero_rejected:
  "(parse_profile_group flow = Inr (gid, ms, sz) \<and> py_int 10 gid = Inr 0 \<longrightarrow>
      p4ctl_add_group client tbl_name flow
        = (Inr (), print client ''Group ID 0 is un-supported.''))
   \<and> (index (split ''group_id='' flow) 1 = Inr gid \<and> py_int 10 gid = Inr 0 \<longrightarrow>
      p4ctl_del_group client tbl_name flow
        = (Inr (), print client ''Group ID 0 is un-supported.''))
   \<and> (parse_profile_mem inet_aton flow = Inr (act, act_data, mid) \<and> py_int 10 mid = Inr 0 \<longrightarrow>
      p4ctl_add_member inet_aton client tbl_name flow
        = (Inr (), print client ''Member ID 0 is un-supported.''))
   \<and> (index (split ''member_id='' flow) 1 = Inr mid \<and> py_int 10 mid = Inr 0 \<longrightarrow>
      p4ctl_del_member inet_aton client tbl_name flow
        = (Inr (), print client ''Member ID 0 is un-supported.''))
   \<and> written (print client line) = written client"
proof (intro conjI impI)
  assume "parse_profile_group flow = Inr (gid, ms, sz) \<and> py_int 10 gid = Inr 0"
  then show "p4ctl_add_group client tbl_name flow
        = (Inr (), print client ''Group ID 0 is un-supported.'')"
    by (simp add: p4ctl_add_group_def)
next
  assume "index (split ''group_id='' flow) 1 = Inr gid \<and> py_int 10 gid = Inr 0"
  then show "p4ctl_del_group client tbl_name flow
        = (Inr (), print client ''Group ID 0 is un-supported.'')"
    by (simp add: p4ctl_del_group_def bind_err_simps)
next
  assume "parse_profile_mem inet_aton flow = Inr (act, act_data, mid) \<and> py_int 10 mid = Inr 0"
  then show "p4ctl_add_member inet_aton client tbl_name flow
        = (Inr (), print client ''Member ID 0 is un-supported.'')"
    by (simp add: p4ctl_add_member_def)
next
  assume "index (split ''member_id='' flow) 1 = Inr mid \<and> py_int 10 mid = Inr 0"
  then show "p4ctl_del_member inet_aton client tbl_name flow
        = (Inr (), print client ''Member ID 0 is un-supported.'')"
    by (simp add: p4ctl_del_member_def bind_err_simps)
next
  show "written (print client line) = written client" by (rule print_keeps_writes)
qed

theorem id_zero_rejected_witness:
  "p4ctl_add_group example_client ''ap'' ''group_id=0,reference_members=(1,2),max_size=2''
     = (Inr (), print example_client ''Group ID 0 is un-supported.'')
   \<and> p4ctl_del_group example_client ''ap'' ''group_id=0''
     = (Inr (), print example_client ''Group ID 0 is un-supported.'')
   \<and> p4ctl_add_member no_inet_aton example_client ''ap'' ''action=pipe.a(10),member_id=0''
     = (Inr (), print example_client ''Member ID 0 is un-supported.'')
   \<and> p4ctl_del_member no_inet_aton example_client ''ap'' ''member_id=0''
     = (Inr (), print example_client ''Member ID 0 is un-supported.'')
   \<and> written (print example_client ''Group ID 0 is un-supported.'') = []"
proof -
  have z: "py_int 10 ''0'' = Inr 0" by code_simp
  have g: "parse_profile_group ''group_id=0,reference_members=(1,2),max_size=2''
             = Inr (''0'', ''(1,2)'', ''2'')" by code_simp
  have dg: "index (split ''group_id='' ''group_id=0'') 1 = Inr ''0''" by code_simp
  have m: "parse_profile_mem no_inet_aton ''action=pipe.a(10),member_id=0''
             = Inr (''pipe.a'', [PInt 10], ''0'')" by code_simp
  have dm: "index (split ''member_id='' ''member_id=0'') 1 = Inr ''0''" by code_simp
  have w: "written example_client = []" by (simp add: example_client_def)
  from id_zero_rejected
         [of "''group_id=0,reference_members=(1,2),max_size=2''" "''0''" "''(1,2)''" "''2''"
             example_client "''ap''"]
       g z
  have a: "p4ctl_add_group example_client ''ap'' ''group_id=0,reference_members=(1,2),max_size=2''
     = (Inr (), print example_client ''Group ID 0 is un-supported.'')" by blast
  from id_zero_rejected [of "''group_id=0''" "''0''" _ _ example_client "''ap''"] dg z
  have b: "p4ctl_del_group example_client ''ap'' ''group_id=0''
     = (Inr (), print example_client ''Group ID 0 is un-supported.'')" by blast
  from id_zero_rejected
         [of "''action=pipe.a(10),member_id=0''" _ _ _ example_client "''ap''" no_inet_aton
             "''pipe.a''" "[PInt 10]" "''0''"]
       m z
  have c: "p4ctl_add_member no_inet_aton example_client ''ap'' ''action=pipe.a(10),member_id=0''
     = (Inr (), print example_client ''Member ID 0 is un-supported.'')" by blast
  from id_zero_rejected
         [of "''member_id=0''" _ _ _ example_client "''ap''" no_inet_aton _ _ "''0''"]
       dm z
  have d: "p4ctl_del_member no_inet_aton example_client ''ap'' ''member_id=0''
     = (Inr (), print example_client ''Member ID 0 is un-supported.'')" by blast
  have e: "written (print example_client ''Group ID 0 is un-supported.'') = []"
    using print_keeps_writes(1) w by simp
  from a b c d e show ?thesis by (intro conjI)
qed

section \<open>Properties of the arbitration handshake\<close>







end
